theory Spec2Isabelle
  imports Main "HOL-Library.Word"
begin

unbundle bit_operations_syntax

section \<open>The libevent adapter of libwebsockets (lib/event-libs/libevent/libevent.c)\<close>

text \<open>
  The adapter binds the server's watch interface onto libevent. The file under
  verification consists of the readiness callback \<open>lws_event_cb\<close>, the interrupt
  callback \<open>lws_event_sigint_cb\<close> with its configuration setter, loop set-up and
  tear-down (\<open>lws_event_initloop\<close>, \<open>lws_libevent_destroyloop\<close>), the per-connection
  operations (\<open>lws_libevent_accept\<close>, \<open>lws_libevent_destroy\<close>, \<open>lws_libevent_io\<close>) and
  \<open>lws_libevent_run\<close>.

  The embedding is by explicit state passing. A \<open>world\<close> holds the server context, the
  store of connection objects (\<open>struct lws\<close>, addressed by a number) and the state of the
  reactor library. Pointers are \<open>nat option\<close>, with \<open>None\<close> for \<open>NULL\<close>. Calls that leave
  the file (libevent, \<open>lws_service_fd\<close>, \<open>lws_create_event_pipes\<close>) are appended, in
  program order, to the reactor's call log.
\<close>

subsection \<open>C types\<close>

type_synonym short = "16 word"
type_synonym cint = "32 word"
type_synonym uint = "32 word"

type_synonym event_ptr = "nat option"
type_synonym base_ptr = "nat option"
type_synonym wsi_ptr = "nat option"

text \<open>
  The file handles one \<open>struct lws_context\<close>; a pointer to it is either \<open>NULL\<close> or that
  context.
\<close>

type_synonym context_ptr = "unit option"

subsection \<open>Constants of headers\<close>

text \<open>
  The event bits of libevent (\<open>event2/event.h\<close>), the poll bits behind \<open>LWS_POLLIN\<close> and
  \<open>LWS_POLLOUT\<close>, \<open>SIGINT\<close>, the \<open>LWS_EV_*\<close> flag protocol, the server option bit and
  the macro \<open>lws_check_opt\<close> are declared in headers, not in the file. They are
  parameters of the model: every function takes the record of their values.
\<close>

record hconsts =
  LIBEVENT_VERSION_NUMBER :: nat
  EV_TIMEOUT :: cint
  EV_READ :: cint
  EV_WRITE :: cint
  EV_PERSIST :: cint
  EV_CLOSED :: cint
  SIGINT :: int
  LWS_POLLIN :: cint
  LWS_POLLOUT :: cint
  LWS_EV_READ :: cint
  LWS_EV_WRITE :: cint
  LWS_EV_START :: cint
  LWS_EV_STOP :: cint
  LWS_SERVER_OPTION_LIBEVENT :: uint
  lws_check_opt :: "uint \<Rightarrow> uint \<Rightarrow> bool"

subsection \<open>Data of the server\<close>

text \<open>\<open>struct lws_io_watcher\<close>: the registration token and the context back-reference.\<close>

record lws_io_watcher =
  watcher :: event_ptr
  w_context :: context_ptr

text \<open>\<open>lws_sock_file_fd_type\<close>: the descriptor, as a socket or as a file.\<close>

record lws_sock_file_fd_type =
  sockfd :: int
  filefd :: int

text \<open>
  \<open>struct lws\<close>, the fields the file uses. \<open>role_raw_file\<close> stands for
  \<open>role_ops == &role_ops_raw_file\<close>.
\<close>

record lws =
  w_read :: lws_io_watcher
  w_write :: lws_io_watcher
  tsi :: nat
  desc :: lws_sock_file_fd_type
  role_raw_file :: bool

text \<open>
  \<open>struct lws_vhost\<close>: the listening connection, or \<open>NULL\<close>. The chain through
  \<open>vhost_next\<close> is the list \<open>vhost_list\<close> of the context.
\<close>

record lws_vhost =
  lserv_wsi :: wsi_ptr

text \<open>Who receives a callback: the \<open>void *ctx\<close> given at registration.\<close>

datatype watcher_ref = W_read nat | W_write nat

datatype cb_arg = Arg_watcher watcher_ref | Arg_pt nat

datatype callback = Cb_lws_event_cb | Cb_lws_event_sigint_cb | Cb_user nat

text \<open>\<open>struct lws_context_per_thread\<close>.\<close>

record lws_context_per_thread =
  io_loop :: base_ptr
  event_loop_foreign :: bool
  w_sigint :: lws_io_watcher

text \<open>
  \<open>struct lws_context\<close>. The array \<open>pt\<close> is indexed by the service thread index; an
  index outside the array is undefined in C and is not modelled.
\<close>

record lws_context =
  options :: uint
  use_event_loop_sigint :: cint
  sigint_cb :: "callback option"
  being_destroyed :: bool
  count_threads :: nat
  pt :: "nat \<Rightarrow> lws_context_per_thread"
  vhost_list :: "lws_vhost list"

text \<open>\<open>struct lws_pollfd\<close>.\<close>

record lws_pollfd =
  pfd_fd :: int
  pfd_events :: short
  pfd_revents :: short

subsection \<open>The reactor library and the other external calls\<close>

text \<open>What a live registration was created with.\<close>

record event =
  ev_base :: base_ptr
  ev_fd :: int
  ev_what :: "short option"
  ev_cb :: "callback option"
  ev_arg :: cb_arg

text \<open>One entry of the call log per call that leaves the file.\<close>

datatype rcall =
    Call_event_base_new base_ptr
  | Call_event_new base_ptr int short "callback option" cb_arg event_ptr
  | Call_evsignal_new base_ptr int "callback option" cb_arg event_ptr
  | Call_event_add event_ptr
  | Call_event_del event_ptr
  | Call_event_free event_ptr
  | Call_event_base_free base_ptr
  | Call_event_base_loopbreak base_ptr
  | Call_event_base_dispatch base_ptr
  | Call_lws_service_fd context_ptr lws_pollfd
  | Call_lws_create_event_pipes cint

text \<open>
  The reactor keeps the live registrations and the live instances, hands out fresh
  tokens, and logs the calls. Only the bookkeeping the adapter can observe is kept:
  which tokens are live and in which order the calls were made. Creating a registration
  always yields a token in the model; creating an instance may fail.
\<close>

record reactor =
  registrations :: "nat \<rightharpoonup> event"
  bases :: "nat set"
  next_event :: nat
  next_base :: nat
  calls :: "rcall list"

definition logged :: "rcall \<Rightarrow> reactor \<Rightarrow> reactor" where
  "logged c r = r\<lparr>calls := calls r @ [c]\<rparr>"

text \<open>
  \<open>event_base_new()\<close>: a fresh instance, or \<open>NULL\<close> when the library cannot make one
  (\<open>ok\<close> is the outcome).
\<close>

definition event_base_new :: "bool \<Rightarrow> reactor \<Rightarrow> base_ptr \<times> reactor" where
  "event_base_new ok r =
     (if ok
      then (Some (next_base r),
            logged (Call_event_base_new (Some (next_base r)))
              (r\<lparr>bases := insert (next_base r) (bases r), next_base := Suc (next_base r)\<rparr>))
      else (None, logged (Call_event_base_new None) r))"

definition event_new ::
  "base_ptr \<Rightarrow> int \<Rightarrow> short \<Rightarrow> callback option \<Rightarrow> cb_arg \<Rightarrow> reactor \<Rightarrow> event_ptr \<times> reactor" where
  "event_new b f what cb arg r =
     (Some (next_event r),
      logged (Call_event_new b f what cb arg (Some (next_event r)))
        (r\<lparr>registrations := (registrations r)(next_event r \<mapsto>
               \<lparr>ev_base = b, ev_fd = f, ev_what = Some what, ev_cb = cb, ev_arg = arg\<rparr>),
           next_event := Suc (next_event r)\<rparr>))"

definition evsignal_new ::
  "base_ptr \<Rightarrow> int \<Rightarrow> callback option \<Rightarrow> cb_arg \<Rightarrow> reactor \<Rightarrow> event_ptr \<times> reactor" where
  "evsignal_new b signum cb arg r =
     (Some (next_event r),
      logged (Call_evsignal_new b signum cb arg (Some (next_event r)))
        (r\<lparr>registrations := (registrations r)(next_event r \<mapsto>
               \<lparr>ev_base = b, ev_fd = signum, ev_what = None, ev_cb = cb, ev_arg = arg\<rparr>),
           next_event := Suc (next_event r)\<rparr>))"

definition event_add :: "event_ptr \<Rightarrow> reactor \<Rightarrow> reactor" where
  "event_add p r = logged (Call_event_add p) r"

definition event_del :: "event_ptr \<Rightarrow> reactor \<Rightarrow> reactor" where
  "event_del p r = logged (Call_event_del p) r"

text \<open>\<open>event_free\<close> ends the registration: the token is live no longer.\<close>

definition event_free :: "event_ptr \<Rightarrow> reactor \<Rightarrow> reactor" where
  "event_free p r =
     logged (Call_event_free p)
       (case p of None \<Rightarrow> r
        | Some t \<Rightarrow> r\<lparr>registrations := (registrations r)(t := None)\<rparr>)"

definition event_base_free :: "base_ptr \<Rightarrow> reactor \<Rightarrow> reactor" where
  "event_base_free b r =
     logged (Call_event_base_free b)
       (case b of None \<Rightarrow> r | Some n \<Rightarrow> r\<lparr>bases := bases r - {n}\<rparr>)"

definition event_base_loopbreak :: "base_ptr \<Rightarrow> reactor \<Rightarrow> reactor" where
  "event_base_loopbreak b r = logged (Call_event_base_loopbreak b) r"

definition event_base_dispatch :: "base_ptr \<Rightarrow> reactor \<Rightarrow> reactor" where
  "event_base_dispatch b r = logged (Call_event_base_dispatch b) r"

text \<open>The servicing entry point of the server core.\<close>

definition lws_service_fd :: "context_ptr \<Rightarrow> lws_pollfd \<Rightarrow> reactor \<Rightarrow> reactor" where
  "lws_service_fd c p r = logged (Call_lws_service_fd c p) r"

text \<open>
  \<open>lws_create_event_pipes\<close> lives in another file; \<open>rc\<close> is what it returns, nonzero
  on failure.
\<close>

definition lws_create_event_pipes :: "cint \<Rightarrow> reactor \<Rightarrow> cint \<times> reactor" where
  "lws_create_event_pipes rc r = (rc, logged (Call_lws_create_event_pipes rc) r)"

subsection \<open>The state\<close>

record world =
  ctx :: lws_context
  wsis :: "nat \<Rightarrow> lws"
  reactor :: reactor

definition the_context :: context_ptr where
  "the_context = Some ()"

text \<open>
  Modelled from the spec: the macro \<open>LWS_LIBEVENT_ENABLED\<close> is declared in the private
  header, not in the file. The spec speaks of one configuration flag, whether the adapter
  is enabled at all, checked at the top of every public operation; that is the test
  \<open>lws_libevent_destroyloop\<close> writes out.
\<close>

definition LWS_LIBEVENT_ENABLED :: "hconsts \<Rightarrow> lws_context \<Rightarrow> bool" where
  "LWS_LIBEVENT_ENABLED K c = lws_check_opt K (options c) (LWS_SERVER_OPTION_LIBEVENT K)"

definition io_watcher_at :: "world \<Rightarrow> watcher_ref \<Rightarrow> lws_io_watcher" where
  "io_watcher_at w x =
     (case x of W_read a \<Rightarrow> w_read (wsis w a) | W_write a \<Rightarrow> w_write (wsis w a))"

text \<open>The calls a step from \<open>w\<close> to \<open>w'\<close> added to the log.\<close>

definition emitted :: "world \<Rightarrow> world \<Rightarrow> rcall list" where
  "emitted w w' = drop (length (calls (reactor w))) (calls (reactor w'))"

subsection \<open>\<open>lws_event_cb\<close>\<close>

text \<open>
  \<open>revents\<close> is a \<open>short\<close>, promoted to \<open>int\<close> for each test; the fields of the poll
  record are \<open>short\<close>, so each \<open>|=\<close> converts back. The block under
  \<open>#if LIBEVENT_VERSION_NUMBER < 0x02000000\<close> is part of the function only for such a
  version.
\<close>

definition lws_event_cb :: "hconsts \<Rightarrow> int \<Rightarrow> short \<Rightarrow> watcher_ref \<Rightarrow> world \<Rightarrow> world" where
  "lws_event_cb K sock_fd revents x w =
     (let lws_io = io_watcher_at w x;
          context = w_context lws_io
      in
        if (scast revents AND EV_TIMEOUT K) \<noteq> 0 then w
        else if LIBEVENT_VERSION_NUMBER K < 0x02000000 \<and> (scast revents AND EV_CLOSED K) \<noteq> 0
        then w\<lparr>reactor := event_free (watcher lws_io) (event_del (watcher lws_io) (reactor w))\<rparr>
        else
          let eventfd = \<lparr>pfd_fd = sock_fd, pfd_events = 0, pfd_revents = 0\<rparr>;
              eventfd =
                (if (scast revents AND EV_READ K) \<noteq> 0
                 then eventfd\<lparr>pfd_events := ucast (scast (pfd_events eventfd) OR LWS_POLLIN K),
                              pfd_revents := ucast (scast (pfd_revents eventfd) OR LWS_POLLIN K)\<rparr>
                 else eventfd);
              eventfd =
                (if (scast revents AND EV_WRITE K) \<noteq> 0
                 then eventfd\<lparr>pfd_events := ucast (scast (pfd_events eventfd) OR LWS_POLLOUT K),
                              pfd_revents := ucast (scast (pfd_revents eventfd) OR LWS_POLLOUT K)\<rparr>
                 else eventfd)
          in w\<lparr>reactor := lws_service_fd context eventfd (reactor w)\<rparr>)"

subsection \<open>\<open>lws_event_sigint_cb\<close> and \<open>lws_event_sigint_cfg\<close>\<close>

definition lws_event_sigint_cb :: "int \<Rightarrow> short \<Rightarrow> nat \<Rightarrow> world \<Rightarrow> world" where
  "lws_event_sigint_cb sock_fd revents n w =
     (let p = pt (ctx w) n
      in if \<not> event_loop_foreign p
         then w\<lparr>reactor := event_base_loopbreak (io_loop p) (reactor w)\<rparr>
         else w)"

definition lws_event_sigint_cfg :: "cint \<Rightarrow> callback option \<Rightarrow> world \<Rightarrow> cint \<times> world" where
  "lws_event_sigint_cfg use_event_sigint cb w =
     (let c = (ctx w)\<lparr>use_event_loop_sigint := use_event_sigint\<rparr>;
          c = (case cb of Some f \<Rightarrow> c\<lparr>sigint_cb := Some f\<rparr>
               | None \<Rightarrow> c\<lparr>sigint_cb := Some Cb_lws_event_sigint_cb\<rparr>)
      in (0, w\<lparr>ctx := c\<rparr>))"

subsection \<open>\<open>lws_event_initloop\<close>\<close>

text \<open>The body of \<open>while (vh)\<close>, for the vhosts still to visit.\<close>

fun initloop_vhosts :: "hconsts \<Rightarrow> base_ptr \<Rightarrow> lws_vhost list \<Rightarrow> world \<Rightarrow> world" where
  "initloop_vhosts K loop [] w = w"
| "initloop_vhosts K loop (vh # vhs) w =
     initloop_vhosts K loop vhs
       (case lserv_wsi vh of
          None \<Rightarrow> w
        | Some a \<Rightarrow>
            let wsi = wsis w a;
                wsi = wsi\<lparr>w_read := (w_read wsi)\<lparr>w_context := the_context\<rparr>\<rparr>;
                (p, r) = event_new loop (sockfd (desc wsi)) (ucast (EV_READ K OR EV_PERSIST K))
                           (Some Cb_lws_event_cb) (Arg_watcher (W_read a)) (reactor w);
                wsi = wsi\<lparr>w_read := (w_read wsi)\<lparr>watcher := p\<rparr>\<rparr>
            in w\<lparr>wsis := (wsis w)(a := wsi), reactor := event_add p r\<rparr>)"

text \<open>
  \<open>base_ok\<close> and \<open>pipes_rc\<close> are the outcomes of \<open>event_base_new()\<close> and of
  \<open>lws_create_event_pipes(context)\<close>.
\<close>

definition lws_event_initloop ::
  "hconsts \<Rightarrow> bool \<Rightarrow> cint \<Rightarrow> base_ptr \<Rightarrow> nat \<Rightarrow> world \<Rightarrow> cint \<times> world" where
  "lws_event_initloop K base_ok pipes_rc loop n w =
     (let vh = vhost_list (ctx w);
          w = (case loop of
                 None \<Rightarrow>
                   let (b, r) = event_base_new base_ok (reactor w)
                   in w\<lparr>ctx := (ctx w)\<lparr>pt := (pt (ctx w))(n := (pt (ctx w) n)\<lparr>io_loop := b\<rparr>)\<rparr>,
                        reactor := r\<rparr>
               | Some l \<Rightarrow>
                   w\<lparr>ctx := (ctx w)\<lparr>pt := (pt (ctx w))
                        (n := (pt (ctx w) n)\<lparr>event_loop_foreign := True, io_loop := loop\<rparr>)\<rparr>\<rparr>);
          (rc, r) = lws_create_event_pipes pipes_rc (reactor w);
          w = w\<lparr>reactor := r\<rparr>
      in
        if rc \<noteq> 0 then (1, w)
        else
          let w = initloop_vhosts K loop vh w
          in
            if use_event_loop_sigint (ctx w) = 0 then (0, w)
            else
              let (p, r) = evsignal_new loop (SIGINT K) (sigint_cb (ctx w)) (Arg_pt n) (reactor w);
                  ptn = pt (ctx w) n;
                  ptn = ptn\<lparr>w_sigint := (w_sigint ptn)\<lparr>watcher := p\<rparr>\<rparr>
              in (0, w\<lparr>ctx := (ctx w)\<lparr>pt := (pt (ctx w))(n := ptn)\<rparr>,
                       reactor := event_add p r\<rparr>))"

subsection \<open>\<open>lws_libevent_destroyloop\<close>\<close>

fun destroyloop_vhosts :: "lws_vhost list \<Rightarrow> world \<Rightarrow> world" where
  "destroyloop_vhosts [] w = w"
| "destroyloop_vhosts (vh # vhs) w =
     destroyloop_vhosts vhs
       (case lserv_wsi vh of
          None \<Rightarrow> w
        | Some a \<Rightarrow>
            let wsi = wsis w a;
                r = event_free (watcher (w_read wsi)) (reactor w);
                wsi = wsi\<lparr>w_read := (w_read wsi)\<lparr>watcher := None\<rparr>\<rparr>
            in w\<lparr>wsis := (wsis w)(a := wsi), reactor := r\<rparr>)"

definition lws_libevent_destroyloop :: "hconsts \<Rightarrow> nat \<Rightarrow> world \<Rightarrow> world" where
  "lws_libevent_destroyloop K n w =
     (let vh = vhost_list (ctx w)
      in
        if \<not> lws_check_opt K (options (ctx w)) (LWS_SERVER_OPTION_LIBEVENT K) then w
        else if io_loop (pt (ctx w) n) = None then w
        else
          let w = destroyloop_vhosts vh w;
              w = (if use_event_loop_sigint (ctx w) \<noteq> 0
                   then w\<lparr>reactor := event_free (watcher (w_sigint (pt (ctx w) n))) (reactor w)\<rparr>
                   else w);
              w = (if \<not> event_loop_foreign (pt (ctx w) n)
                   then w\<lparr>reactor := event_base_free (io_loop (pt (ctx w) n)) (reactor w)\<rparr>
                   else w)
          in w)"

subsection \<open>\<open>lws_libevent_accept\<close>\<close>

definition lws_libevent_accept :: "hconsts \<Rightarrow> nat \<Rightarrow> lws_sock_file_fd_type \<Rightarrow> world \<Rightarrow> world" where
  "lws_libevent_accept K a d w =
     (let context = ctx w
      in
        if \<not> LWS_LIBEVENT_ENABLED K context then w
        else
          let new_wsi = wsis w a;
              new_wsi = new_wsi\<lparr>w_read := (w_read new_wsi)\<lparr>w_context := the_context\<rparr>\<rparr>;
              new_wsi = new_wsi\<lparr>w_write := (w_write new_wsi)\<lparr>w_context := the_context\<rparr>\<rparr>;
              p = pt context (tsi new_wsi);
              f = (if role_raw_file new_wsi then filefd d else sockfd d);
              (rd, r) = event_new (io_loop p) f (ucast (EV_READ K OR EV_PERSIST K))
                          (Some Cb_lws_event_cb) (Arg_watcher (W_read a)) (reactor w);
              new_wsi = new_wsi\<lparr>w_read := (w_read new_wsi)\<lparr>watcher := rd\<rparr>\<rparr>;
              (wr, r) = event_new (io_loop p) f (ucast (EV_WRITE K OR EV_PERSIST K))
                          (Some Cb_lws_event_cb) (Arg_watcher (W_write a)) r;
              new_wsi = new_wsi\<lparr>w_write := (w_write new_wsi)\<lparr>watcher := wr\<rparr>\<rparr>
          in w\<lparr>wsis := (wsis w)(a := new_wsi), reactor := r\<rparr>)"

subsection \<open>\<open>lws_libevent_destroy\<close>\<close>

definition lws_libevent_destroy :: "wsi_ptr \<Rightarrow> world \<Rightarrow> world" where
  "lws_libevent_destroy wp w =
     (case wp of
        None \<Rightarrow> w
      | Some a \<Rightarrow>
          let w = (if watcher (w_read (wsis w a)) \<noteq> None
                   then w\<lparr>reactor := event_free (watcher (w_read (wsis w a))) (reactor w)\<rparr>
                   else w);
              w = (if watcher (w_write (wsis w a)) \<noteq> None
                   then w\<lparr>reactor := event_free (watcher (w_write (wsis w a))) (reactor w)\<rparr>
                   else w)
          in w)"

subsection \<open>\<open>lws_libevent_io\<close>\<close>

datatype error = Assertion_failed

text \<open>The \<open>assert\<close> is modelled as compiled in: a false condition ends the call.\<close>

definition lws_libevent_io :: "hconsts \<Rightarrow> nat \<Rightarrow> cint \<Rightarrow> world \<Rightarrow> error + world" where
  "lws_libevent_io K a flags w =
     (let wsi = wsis w a;
          context = ctx w;
          p = pt context (tsi wsi)
      in
        if \<not> LWS_LIBEVENT_ENABLED K context then Inr w
        else if io_loop p = None \<or> being_destroyed context then Inr w
        else if \<not> ((flags AND (LWS_EV_START K OR LWS_EV_STOP K)) \<noteq> 0 \<and>
                    (flags AND (LWS_EV_READ K OR LWS_EV_WRITE K)) \<noteq> 0)
        then Inl Assertion_failed
        else if (flags AND LWS_EV_START K) \<noteq> 0
        then
          let w = (if (flags AND LWS_EV_WRITE K) \<noteq> 0
                   then w\<lparr>reactor := event_add (watcher (w_write wsi)) (reactor w)\<rparr> else w);
              w = (if (flags AND LWS_EV_READ K) \<noteq> 0
                   then w\<lparr>reactor := event_add (watcher (w_read wsi)) (reactor w)\<rparr> else w)
          in Inr w
        else
          let w = (if (flags AND LWS_EV_WRITE K) \<noteq> 0
                   then w\<lparr>reactor := event_del (watcher (w_write wsi)) (reactor w)\<rparr> else w);
              w = (if (flags AND LWS_EV_READ K) \<noteq> 0
                   then w\<lparr>reactor := event_del (watcher (w_read wsi)) (reactor w)\<rparr> else w)
          in Inr w)"

subsection \<open>\<open>lws_libevent_init_fd_table\<close> and \<open>lws_libevent_run\<close>\<close>

fun init_fd_table_loop :: "nat \<Rightarrow> lws_context \<Rightarrow> lws_context" where
  "init_fd_table_loop 0 c = c"
| "init_fd_table_loop (Suc n) c =
     (let c = init_fd_table_loop n c
      in c\<lparr>pt := (pt c)(n := (pt c n)\<lparr>w_sigint := (w_sigint (pt c n))\<lparr>w_context := the_context\<rparr>\<rparr>)\<rparr>)"

definition lws_libevent_init_fd_table :: "hconsts \<Rightarrow> world \<Rightarrow> cint \<times> world" where
  "lws_libevent_init_fd_table K w =
     (if \<not> LWS_LIBEVENT_ENABLED K (ctx w) then (0, w)
      else (1, w\<lparr>ctx := init_fd_table_loop (count_threads (ctx w)) (ctx w)\<rparr>))"

definition lws_libevent_run :: "hconsts \<Rightarrow> nat \<Rightarrow> world \<Rightarrow> world" where
  "lws_libevent_run K n w =
     (if io_loop (pt (ctx w) n) \<noteq> None \<and> LWS_LIBEVENT_ENABLED K (ctx w)
      then w\<lparr>reactor := event_base_dispatch (io_loop (pt (ctx w) n)) (reactor w)\<rparr>
      else w)"

subsection \<open>Reading the call log and the tokens\<close>

fun is_event_free :: "rcall \<Rightarrow> bool" where
  "is_event_free (Call_event_free p) = True"
| "is_event_free _ = False"

fun is_base_free :: "rcall \<Rightarrow> bool" where
  "is_base_free (Call_event_base_free b) = True"
| "is_base_free _ = False"



text \<open>No registration is released after an instance has been destroyed.\<close>

fun released_before_destroy :: "rcall list \<Rightarrow> bool" where
  "released_before_destroy [] = True"
| "released_before_destroy (c # cs) =
     ((is_base_free c \<longrightarrow> \<not> list_ex is_event_free cs) \<and> released_before_destroy cs)"

text \<open>The poll bits as they sit in the \<open>short\<close> fields of the poll record.\<close>

definition readable :: "hconsts \<Rightarrow> short \<Rightarrow> bool" where
  "readable K e = (e AND ucast (LWS_POLLIN K) \<noteq> 0)"

definition writable :: "hconsts \<Rightarrow> short \<Rightarrow> bool" where
  "writable K e = (e AND ucast (LWS_POLLOUT K) \<noteq> 0)"

text \<open>A token is sound when it is \<open>NULL\<close> or names a live registration.\<close>

definition token_sound :: "reactor \<Rightarrow> event_ptr \<Rightarrow> bool" where
  "token_sound r p = (case p of None \<Rightarrow> True | Some t \<Rightarrow> registrations r t \<noteq> None)"

definition wsi_tokens_sound :: "world \<Rightarrow> nat \<Rightarrow> bool" where
  "wsi_tokens_sound w a =
     (token_sound (reactor w) (watcher (w_read (wsis w a))) \<and>
      token_sound (reactor w) (watcher (w_write (wsis w a))))"

subsection \<open>Concrete configurations\<close>

text \<open>
  The header values of libevent 2.1 on Linux, and the same with a 1.4 version number,
  for which the \<open>EV_CLOSED\<close> block is compiled.
\<close>

definition K_libevent2 :: hconsts where
  "K_libevent2 =
     \<lparr>LIBEVENT_VERSION_NUMBER = 0x02010800,
      EV_TIMEOUT = 0x01, EV_READ = 0x02, EV_WRITE = 0x04, EV_PERSIST = 0x10, EV_CLOSED = 0x80,
      SIGINT = 2,
      LWS_POLLIN = 0x001, LWS_POLLOUT = 0x004,
      LWS_EV_READ = 1, LWS_EV_WRITE = 2, LWS_EV_START = 4, LWS_EV_STOP = 8,
      LWS_SERVER_OPTION_LIBEVENT = 0x200000,
      lws_check_opt = (\<lambda>c f. c AND f = f)\<rparr>"

definition K_libevent1 :: hconsts where
  "K_libevent1 = K_libevent2\<lparr>LIBEVENT_VERSION_NUMBER := 0x01040F00\<rparr>"

definition blank_watcher :: lws_io_watcher where
  "blank_watcher = \<lparr>watcher = None, w_context = None\<rparr>"

definition blank_wsi :: lws where
  "blank_wsi =
     \<lparr>w_read = blank_watcher, w_write = blank_watcher, tsi = 0,
      desc = \<lparr>sockfd = 0, filefd = 0\<rparr>, role_raw_file = False\<rparr>"

definition blank_pt :: lws_context_per_thread where
  "blank_pt = \<lparr>io_loop = None, event_loop_foreign = False, w_sigint = blank_watcher\<rparr>"

definition fresh_reactor :: reactor where
  "fresh_reactor =
     \<lparr>registrations = Map.empty, bases = {}, next_event = 0, next_base = 0, calls = []\<rparr>"

text \<open>
  A server before \<open>lws_event_initloop\<close>: the adapter enabled, interrupt handling on
  with the default callback, one vhost listening on descriptor 3 through connection 0.
\<close>

definition w_start :: world where
  "w_start =
     \<lparr>ctx = \<lparr>options = 0x200000, use_event_loop_sigint = 1,
             sigint_cb = Some Cb_lws_event_sigint_cb, being_destroyed = False,
             count_threads = 1, pt = (\<lambda>i. blank_pt),
             vhost_list = [\<lparr>lserv_wsi = Some 0\<rparr>]\<rparr>,
      wsis = (\<lambda>a. blank_wsi)(0 := blank_wsi\<lparr>desc := \<lparr>sockfd = 3, filefd = 3\<rparr>\<rparr>),
      reactor = fresh_reactor\<rparr>"

text \<open>The same server with the adapter switched off.\<close>

definition w_disabled :: world where
  "w_disabled = w_start\<lparr>ctx := (ctx w_start)\<lparr>options := 0\<rparr>\<rparr>"

text \<open>
  After \<open>lws_event_initloop\<close> on a supplied instance 5, and after an accepted connection 1
  on descriptor 7.
\<close>

definition w_foreign :: world where
  "w_foreign = snd (lws_event_initloop K_libevent2 True 0 (Some 5) 0 w_start)"

definition w_owned :: world where
  "w_owned = snd (lws_event_initloop K_libevent2 True 0 None 0 w_start)"

definition w_accepted :: world where
  "w_accepted = lws_libevent_accept K_libevent2 1 \<lparr>sockfd = 7, filefd = 7\<rparr> w_foreign"

section \<open>Properties\<close>

lemmas example_defs =
  w_start_def w_disabled_def w_foreign_def w_owned_def w_accepted_def K_libevent2_def
  K_libevent1_def blank_watcher_def blank_wsi_def blank_pt_def fresh_reactor_def the_context_def

lemmas op_defs =
  lws_event_initloop_def lws_libevent_destroyloop_def lws_libevent_accept_def
  lws_libevent_destroy_def lws_libevent_io_def lws_event_cb_def lws_event_sigint_cb_def
  lws_event_sigint_cfg_def LWS_LIBEVENT_ENABLED_def io_watcher_at_def emitted_def
  event_base_new_def event_new_def evsignal_new_def event_add_def event_del_def event_free_def
  event_base_free_def event_base_loopbreak_def event_base_dispatch_def lws_service_fd_def
  lws_create_event_pipes_def logged_def Let_def

subsection \<open>The call log\<close>

lemma calls_event_free: "calls (event_free p r) = calls r @ [Call_event_free p]"
  by (simp add: event_free_def logged_def split: option.split)

lemma calls_event_base_free: "calls (event_base_free b r) = calls r @ [Call_event_base_free b]"
  by (simp add: event_base_free_def logged_def split: option.split)

lemma emitted_append: "calls (reactor w') = calls (reactor w) @ cs \<Longrightarrow> emitted w w' = cs"
  by (simp add: emitted_def)

lemma emitted_same: "emitted w w = []"
  by (simp add: emitted_def)

lemma event_free_not_base_free: "is_event_free c \<Longrightarrow> \<not> is_base_free c"
  by (cases c) simp_all

lemma released_before_destroy_frees:
  "list_all is_event_free fs \<Longrightarrow> released_before_destroy (fs @ cs) = released_before_destroy cs"
  by (induction fs) (simp_all add: event_free_not_base_free)

lemma base_free_in_frees: "list_all is_event_free fs \<Longrightarrow> Call_event_base_free b \<notin> set fs"
  by (induction fs) auto

subsection \<open>Tearing the loop down\<close>

lemma ctx_destroyloop_vhosts: "ctx (destroyloop_vhosts vhs w) = ctx w"
  by (induction vhs arbitrary: w) (simp_all add: Let_def split: option.split)

text \<open>The loop over the vhosts adds nothing to the log but \<open>event_free\<close> calls.\<close>

lemma calls_destroyloop_vhosts:
  "\<exists>fs. calls (reactor (destroyloop_vhosts vhs w)) = calls (reactor w) @ fs \<and>
        list_all is_event_free fs \<and>
        length fs = length (filter (\<lambda>vh. lserv_wsi vh \<noteq> None) vhs)"
proof (induction vhs arbitrary: w)
  case Nil
  show ?case by simp
next
  case (Cons vh vhs)
  show ?case
  proof (cases "lserv_wsi vh")
    case None
    with Cons.IH [of w] show ?thesis by simp
  next
    case (Some a)
    define w1 where
      "w1 = w\<lparr>wsis := (wsis w)(a := (wsis w a)\<lparr>w_read := (w_read (wsis w a))\<lparr>watcher := None\<rparr>\<rparr>),
              reactor := event_free (watcher (w_read (wsis w a))) (reactor w)\<rparr>"
    from Cons.IH [of w1] obtain fs where
      fs: "calls (reactor (destroyloop_vhosts vhs w1)) = calls (reactor w1) @ fs"
          "list_all is_event_free fs"
          "length fs = length (filter (\<lambda>vh. lserv_wsi vh \<noteq> None) vhs)" by blast
    have step: "destroyloop_vhosts (vh # vhs) w = destroyloop_vhosts vhs w1"
      using Some by (simp add: w1_def Let_def)
    have "calls (reactor w1) = calls (reactor w) @ [Call_event_free (watcher (w_read (wsis w a)))]"
      by (simp add: w1_def calls_event_free)
    with fs step have
      "calls (reactor (destroyloop_vhosts (vh # vhs) w)) =
         calls (reactor w) @ (Call_event_free (watcher (w_read (wsis w a))) # fs)"
      by simp
    moreover have "list_all is_event_free (Call_event_free (watcher (w_read (wsis w a))) # fs)"
      using fs(2) by simp
    moreover have "length (Call_event_free (watcher (w_read (wsis w a))) # fs) =
                     length (filter (\<lambda>vh. lserv_wsi vh \<noteq> None) (vh # vhs))"
      using fs(3) Some by simp
    ultimately show ?thesis by blast
  qed
qed

text \<open>
  Past its two guards, the function logs the releases of the listening watches, then the
  release of the interrupt watch, then the destruction of the instance.
\<close>

lemma emitted_destroyloop:
  assumes "lws_check_opt K (options (ctx w)) (LWS_SERVER_OPTION_LIBEVENT K)"
      and "io_loop (pt (ctx w) n) \<noteq> None"
  shows "\<exists>fs. list_all is_event_free fs \<and>
           length fs = length (filter (\<lambda>vh. lserv_wsi vh \<noteq> None) (vhost_list (ctx w))) \<and>
           emitted w (lws_libevent_destroyloop K n w) =
             fs @ (if use_event_loop_sigint (ctx w) \<noteq> 0
                   then [Call_event_free (watcher (w_sigint (pt (ctx w) n)))] else [])
                @ (if \<not> event_loop_foreign (pt (ctx w) n)
                   then [Call_event_base_free (io_loop (pt (ctx w) n))] else [])"
proof -
  obtain fs where
    fs: "calls (reactor (destroyloop_vhosts (vhost_list (ctx w)) w)) = calls (reactor w) @ fs"
        "list_all is_event_free fs"
        "length fs = length (filter (\<lambda>vh. lserv_wsi vh \<noteq> None) (vhost_list (ctx w)))"
    using calls_destroyloop_vhosts by blast
  from assms(2) obtain l where l: "io_loop (pt (ctx w) n) = Some l" by auto
  have "calls (reactor (lws_libevent_destroyloop K n w)) =
          calls (reactor w) @ (fs @ (if use_event_loop_sigint (ctx w) \<noteq> 0
                   then [Call_event_free (watcher (w_sigint (pt (ctx w) n)))] else [])
                @ (if \<not> event_loop_foreign (pt (ctx w) n)
                   then [Call_event_base_free (io_loop (pt (ctx w) n))] else []))"
    using assms(1) fs(1)
    by (simp add: lws_libevent_destroyloop_def Let_def ctx_destroyloop_vhosts
          calls_event_free calls_event_base_free l)
  then show ?thesis using fs(2,3) emitted_append by blast
qed

lemma destroyloop_guarded:
  "\<not> (lws_check_opt K (options (ctx w)) (LWS_SERVER_OPTION_LIBEVENT K) \<and>
      io_loop (pt (ctx w) n) \<noteq> None) \<Longrightarrow> lws_libevent_destroyloop K n w = w"
  by (auto simp add: lws_libevent_destroyloop_def Let_def)

text \<open>
  Claim C1, as amended. \<open>lws_libevent_destroyloop\<close> calls \<open>event_base_free\<close> if and only
  if the adapter is enabled, the thread's instance is present and the loop is not marked
  foreign; the instance it frees is the thread's own. With the foreign flag set the call
  is never made, whatever the rest of the state.
\<close>

theorem destroyloop_base_free_iff:
  "Call_event_base_free b \<in> set (emitted w (lws_libevent_destroyloop K n w)) \<longleftrightarrow>
     lws_check_opt K (options (ctx w)) (LWS_SERVER_OPTION_LIBEVENT K) \<and>
     io_loop (pt (ctx w) n) \<noteq> None \<and>
     \<not> event_loop_foreign (pt (ctx w) n) \<and>
     b = io_loop (pt (ctx w) n)"
proof (cases "lws_check_opt K (options (ctx w)) (LWS_SERVER_OPTION_LIBEVENT K) \<and>
     io_loop (pt (ctx w) n) \<noteq> None")
  case True
  then obtain fs where fs: "list_all is_event_free fs"
     "emitted w (lws_libevent_destroyloop K n w) =
             fs @ (if use_event_loop_sigint (ctx w) \<noteq> 0
                   then [Call_event_free (watcher (w_sigint (pt (ctx w) n)))] else [])
                @ (if \<not> event_loop_foreign (pt (ctx w) n)
                   then [Call_event_base_free (io_loop (pt (ctx w) n))] else [])"
    using emitted_destroyloop by blast
  show ?thesis using True base_free_in_frees [OF fs(1), of b]
    by (auto simp add: fs(2))
next
  case False
  then have "lws_libevent_destroyloop K n w = w"
    by (rule destroyloop_guarded)
  then show ?thesis using False by (auto simp add: emitted_same)
qed

text \<open>
  An owned loop's teardown frees its instance 0; a foreign loop's teardown leaves the
  supplied instance 5 alone.
\<close>

theorem destroyloop_base_free_iff_witness:
  "Call_event_base_free (Some 0) \<in>
     set (emitted w_owned (lws_libevent_destroyloop K_libevent2 0 w_owned)) \<and>
   \<not> event_loop_foreign (pt (ctx w_owned) 0) \<and>
   Call_event_base_free (Some 5) \<notin>
     set (emitted w_foreign (lws_libevent_destroyloop K_libevent2 0 w_foreign)) \<and>
   event_loop_foreign (pt (ctx w_foreign) 0)"
  using destroyloop_base_free_iff [of "Some 0" w_owned K_libevent2 0]
    destroyloop_base_free_iff [of "Some 5" w_foreign K_libevent2 0]
  by (simp add: example_defs op_defs)

text \<open>
  The claim as first stated fails on a loop that was never initialised: it is not
  foreign, and nothing at all is called.
\<close>

theorem destroyloop_not_foreign_counterexample:
  "\<not> event_loop_foreign (pt (ctx w_start) 0) \<and>
   emitted w_start (lws_libevent_destroyloop K_libevent2 0 w_start) = []"
  by (simp add: example_defs op_defs)

text \<open>
  Claim C8. \<open>lws_libevent_destroyloop\<close> changes nothing when the adapter is disabled or
  the thread's instance is absent. Otherwise it releases one watch per listening
  connection, then the interrupt watch if interrupt handling is on, and only then, for a
  loop that is not foreign, destroys the instance. In every run no \<open>event_free\<close> follows
  the \<open>event_base_free\<close>.
\<close>

theorem destroyloop_order:
  "(\<not> lws_check_opt K (options (ctx w)) (LWS_SERVER_OPTION_LIBEVENT K) \<or>
      io_loop (pt (ctx w) n) = None \<longrightarrow> lws_libevent_destroyloop K n w = w) \<and>
   (lws_check_opt K (options (ctx w)) (LWS_SERVER_OPTION_LIBEVENT K) \<and>
      io_loop (pt (ctx w) n) \<noteq> None \<longrightarrow>
        (\<exists>fs. list_all is_event_free fs \<and>
           length fs = length (filter (\<lambda>vh. lserv_wsi vh \<noteq> None) (vhost_list (ctx w))) \<and>
           emitted w (lws_libevent_destroyloop K n w) =
             fs @ (if use_event_loop_sigint (ctx w) \<noteq> 0
                   then [Call_event_free (watcher (w_sigint (pt (ctx w) n)))] else [])
                @ (if \<not> event_loop_foreign (pt (ctx w) n)
                   then [Call_event_base_free (io_loop (pt (ctx w) n))] else []))) \<and>
   released_before_destroy (emitted w (lws_libevent_destroyloop K n w))"
proof (cases "lws_check_opt K (options (ctx w)) (LWS_SERVER_OPTION_LIBEVENT K) \<and>
     io_loop (pt (ctx w) n) \<noteq> None")
  case True
  then obtain fs where fs: "list_all is_event_free fs"
     "length fs = length (filter (\<lambda>vh. lserv_wsi vh \<noteq> None) (vhost_list (ctx w)))"
     "emitted w (lws_libevent_destroyloop K n w) =
             fs @ (if use_event_loop_sigint (ctx w) \<noteq> 0
                   then [Call_event_free (watcher (w_sigint (pt (ctx w) n)))] else [])
                @ (if \<not> event_loop_foreign (pt (ctx w) n)
                   then [Call_event_base_free (io_loop (pt (ctx w) n))] else [])"
    using emitted_destroyloop by blast
  have "released_before_destroy (emitted w (lws_libevent_destroyloop K n w))"
    by (simp add: fs(3) released_before_destroy_frees [OF fs(1)])
  then show ?thesis using True fs by blast
next
  case False
  then have "lws_libevent_destroyloop K n w = w"
    by (rule destroyloop_guarded)
  then show ?thesis using False by (auto simp add: emitted_same)
qed

theorem destroyloop_order_witness:
  "io_loop (pt (ctx w_start) 0) = None \<and>
   lws_libevent_destroyloop K_libevent2 0 w_start = w_start \<and>
   \<not> lws_check_opt K_libevent2 (options (ctx w_disabled))
       (LWS_SERVER_OPTION_LIBEVENT K_libevent2) \<and>
   lws_libevent_destroyloop K_libevent2 0 w_disabled = w_disabled \<and>
   lws_check_opt K_libevent2 (options (ctx w_owned)) (LWS_SERVER_OPTION_LIBEVENT K_libevent2) \<and>
   io_loop (pt (ctx w_owned) 0) \<noteq> None \<and>
   released_before_destroy
     [Call_event_free (Some 0), Call_event_free (Some 1), Call_event_base_free (Some 0)] \<and>
   emitted w_owned (lws_libevent_destroyloop K_libevent2 0 w_owned) =
     [Call_event_free (Some 0), Call_event_free (Some 1), Call_event_base_free (Some 0)]"
proof -
  have a: "io_loop (pt (ctx w_start) 0) = None"
    by (simp add: example_defs)
  have b: "\<not> lws_check_opt K_libevent2 (options (ctx w_disabled))
                (LWS_SERVER_OPTION_LIBEVENT K_libevent2)"
    by (simp add: example_defs)
  have c: "emitted w_owned (lws_libevent_destroyloop K_libevent2 0 w_owned) =
     [Call_event_free (Some 0), Call_event_free (Some 1), Call_event_base_free (Some 0)]"
    by (simp add: example_defs op_defs)
  have d: "lws_check_opt K_libevent2 (options (ctx w_owned))
             (LWS_SERVER_OPTION_LIBEVENT K_libevent2)"
          "io_loop (pt (ctx w_owned) 0) \<noteq> None"
    by (simp_all add: example_defs op_defs)
  show ?thesis
    using destroyloop_order [of K_libevent2 w_start 0]
      destroyloop_order [of K_libevent2 w_disabled 0]
      destroyloop_order [of K_libevent2 w_owned 0] a b c d
    by simp
qed

subsection \<open>The readiness callback\<close>

text \<open>Converting back to \<open>short\<close> after an \<open>|=\<close> on the promoted value.\<close>

lemma ucast_scast_or: "(ucast ((scast (e::16 word) :: 32 word) OR p) :: 16 word) = e OR ucast p"
  by (rule bit_word_eqI) (auto simp add: bit_simps)

text \<open>What the callback passes on, when it passes anything on.\<close>

lemma lws_event_cb_forward:
  assumes "scast revents AND EV_TIMEOUT K = 0"
      and "\<not> (LIBEVENT_VERSION_NUMBER K < 0x02000000 \<and> scast revents AND EV_CLOSED K \<noteq> 0)"
  shows "lws_event_cb K sock_fd revents x w =
           w\<lparr>reactor := logged (Call_lws_service_fd (w_context (io_watcher_at w x))
               \<lparr>pfd_fd = sock_fd,
                pfd_events = (if scast revents AND EV_READ K \<noteq> 0 then ucast (LWS_POLLIN K) else 0) OR
                             (if scast revents AND EV_WRITE K \<noteq> 0 then ucast (LWS_POLLOUT K) else 0),
                pfd_revents = (if scast revents AND EV_READ K \<noteq> 0 then ucast (LWS_POLLIN K) else 0) OR
                             (if scast revents AND EV_WRITE K \<noteq> 0 then ucast (LWS_POLLOUT K) else 0)\<rparr>)
             (reactor w)\<rparr>"
  using assms by (auto simp add: lws_event_cb_def Let_def lws_service_fd_def ucast_scast_or)

text \<open>A mask with the timeout bit is dropped.\<close>

lemma lws_event_cb_timeout:
  "scast revents AND EV_TIMEOUT K \<noteq> 0 \<Longrightarrow> lws_event_cb K sock_fd revents x w = w"
  by (simp add: lws_event_cb_def Let_def)

text \<open>The block compiled for old library versions releases the watch and returns.\<close>

lemma lws_event_cb_closed:
  assumes "scast revents AND EV_TIMEOUT K = 0"
      and "LIBEVENT_VERSION_NUMBER K < 0x02000000" and "scast revents AND EV_CLOSED K \<noteq> 0"
  shows "emitted w (lws_event_cb K sock_fd revents x w) =
           [Call_event_del (watcher (io_watcher_at w x)), Call_event_free (watcher (io_watcher_at w x))]"
  using assms by (simp add: lws_event_cb_def Let_def emitted_def calls_event_free event_del_def logged_def)

lemma translated_bits:
  fixes pin pout :: short
  assumes "pin \<noteq> 0" "pout \<noteq> 0" "pin AND pout = 0"
  shows "(((if rd then pin else 0) OR (if wr then pout else 0)) AND pin \<noteq> 0) = rd"
    and "(((if rd then pin else 0) OR (if wr then pout else 0)) AND pout \<noteq> 0) = wr"
  using assms by (auto simp add: bit.conj_disj_distrib2 and.commute bit.conj_disj_distrib)

lemma translated_no_other_bits:
  fixes pin pout :: short
  shows "((if rd then pin else 0) OR (if wr then pout else 0)) AND NOT (pin OR pout) = 0"
  by (rule bit_word_eqI) (auto simp add: bit_simps)

text \<open>
  Claim C2, as amended. Let the two poll bits be nonzero and disjoint in a \<open>short\<close>. A
  mask with the timeout bit makes \<open>lws_event_cb\<close> return with the state unchanged and
  nothing forwarded. A mask without the timeout bit (and, for an old library version,
  without the closed bit) makes it forward exactly one poll record to \<open>lws_service_fd\<close>,
  for the descriptor it was called with: the record is readable if and only if the read
  bit is set, writable if and only if the write bit is set, and carries no other bit.
  That includes the record with neither bit, which is forwarded like any other.
\<close>

theorem lws_event_cb_translation:
  assumes "ucast (LWS_POLLIN K) \<noteq> (0::short)" and "ucast (LWS_POLLOUT K) \<noteq> (0::short)"
      and "ucast (LWS_POLLIN K) AND ucast (LWS_POLLOUT K) = (0::short)"
  shows "(scast revents AND EV_TIMEOUT K \<noteq> 0 \<longrightarrow> lws_event_cb K sock_fd revents x w = w) \<and>
         (scast revents AND EV_TIMEOUT K = 0 \<and>
          \<not> (LIBEVENT_VERSION_NUMBER K < 0x02000000 \<and> scast revents AND EV_CLOSED K \<noteq> 0) \<longrightarrow>
            (\<exists>e. emitted w (lws_event_cb K sock_fd revents x w) =
                    [Call_lws_service_fd (w_context (io_watcher_at w x))
                       \<lparr>pfd_fd = sock_fd, pfd_events = e, pfd_revents = e\<rparr>] \<and>
                 (readable K e \<longleftrightarrow> scast revents AND EV_READ K \<noteq> 0) \<and>
                 (writable K e \<longleftrightarrow> scast revents AND EV_WRITE K \<noteq> 0) \<and>
                 e AND NOT (ucast (LWS_POLLIN K) OR ucast (LWS_POLLOUT K)) = 0))"
proof (intro conjI impI)
  assume "scast revents AND EV_TIMEOUT K \<noteq> 0"
  then show "lws_event_cb K sock_fd revents x w = w" by (rule lws_event_cb_timeout)
next
  assume a: "scast revents AND EV_TIMEOUT K = 0 \<and>
          \<not> (LIBEVENT_VERSION_NUMBER K < 0x02000000 \<and> scast revents AND EV_CLOSED K \<noteq> 0)"
  let ?e = "(if scast revents AND EV_READ K \<noteq> 0 then ucast (LWS_POLLIN K) else 0) OR
            (if scast revents AND EV_WRITE K \<noteq> 0 then ucast (LWS_POLLOUT K) else (0::short))"
  have "emitted w (lws_event_cb K sock_fd revents x w) =
          [Call_lws_service_fd (w_context (io_watcher_at w x))
             \<lparr>pfd_fd = sock_fd, pfd_events = ?e, pfd_revents = ?e\<rparr>]"
    using a by (simp add: lws_event_cb_forward emitted_def logged_def)
  moreover have "readable K ?e \<longleftrightarrow> scast revents AND EV_READ K \<noteq> 0"
    unfolding readable_def by (rule translated_bits(1) [OF assms])
  moreover have "writable K ?e \<longleftrightarrow> scast revents AND EV_WRITE K \<noteq> 0"
    unfolding writable_def by (rule translated_bits(2) [OF assms])
  moreover have "?e AND NOT (ucast (LWS_POLLIN K) OR ucast (LWS_POLLOUT K)) = 0"
    by (rule translated_no_other_bits)
  ultimately show "\<exists>e. emitted w (lws_event_cb K sock_fd revents x w) =
                    [Call_lws_service_fd (w_context (io_watcher_at w x))
                       \<lparr>pfd_fd = sock_fd, pfd_events = e, pfd_revents = e\<rparr>] \<and>
                 (readable K e \<longleftrightarrow> scast revents AND EV_READ K \<noteq> 0) \<and>
                 (writable K e \<longleftrightarrow> scast revents AND EV_WRITE K \<noteq> 0) \<and>
                 e AND NOT (ucast (LWS_POLLIN K) OR ucast (LWS_POLLOUT K)) = 0"
    by blast
qed

text \<open>
  With the Linux values: mask 3 (timeout and read) is dropped, mask 2 (read) is forwarded
  as readable only.
\<close>

theorem lws_event_cb_translation_witness:
  "ucast (LWS_POLLIN K_libevent2) \<noteq> (0::short) \<and>
   ucast (LWS_POLLOUT K_libevent2) \<noteq> (0::short) \<and>
   ucast (LWS_POLLIN K_libevent2) AND ucast (LWS_POLLOUT K_libevent2) = (0::short) \<and>
   scast (3::short) AND EV_TIMEOUT K_libevent2 \<noteq> 0 \<and>
   lws_event_cb K_libevent2 7 3 (W_read 1) w_accepted = w_accepted \<and>
   scast (2::short) AND EV_TIMEOUT K_libevent2 = 0 \<and>
   emitted w_accepted (lws_event_cb K_libevent2 7 2 (W_read 1) w_accepted) =
     [Call_lws_service_fd (Some ()) \<lparr>pfd_fd = 7, pfd_events = 1, pfd_revents = 1\<rparr>] \<and>
   readable K_libevent2 1 \<and> \<not> writable K_libevent2 1"
proof -
  have h: "ucast (LWS_POLLIN K_libevent2) \<noteq> (0::short)"
          "ucast (LWS_POLLOUT K_libevent2) \<noteq> (0::short)"
          "ucast (LWS_POLLIN K_libevent2) AND ucast (LWS_POLLOUT K_libevent2) = (0::short)"
    by (simp_all add: K_libevent2_def)
  have t: "scast (3::short) AND EV_TIMEOUT K_libevent2 \<noteq> 0"
          "scast (2::short) AND EV_TIMEOUT K_libevent2 = 0"
    by (simp_all add: K_libevent2_def)
  have v: "\<not> LIBEVENT_VERSION_NUMBER K_libevent2 < 0x02000000"
    by (simp add: K_libevent2_def)
  have e: "emitted w_accepted (lws_event_cb K_libevent2 7 2 (W_read 1) w_accepted) =
     [Call_lws_service_fd (Some ()) \<lparr>pfd_fd = 7, pfd_events = 1, pfd_revents = 1\<rparr>]"
    by (simp add: example_defs op_defs)
  have r: "readable K_libevent2 1 \<and> \<not> writable K_libevent2 1"
    by (simp add: readable_def writable_def K_libevent2_def)
  show ?thesis
    using lws_event_cb_translation [OF h, of 3 7 "W_read 1" w_accepted]
      lws_event_cb_translation [OF h, of 2 7 "W_read 1" w_accepted] h t v e r
    by simp
qed

text \<open>
  The claim as first stated fails on the mask with no bit set: the callback still calls
  \<open>lws_service_fd\<close>, with an empty poll record.
\<close>

theorem lws_event_cb_no_bits_counterexample:
  "emitted w_accepted (lws_event_cb K_libevent2 7 0 (W_read 1) w_accepted) =
     [Call_lws_service_fd (Some ()) \<lparr>pfd_fd = 7, pfd_events = 0, pfd_revents = 0\<rparr>]"
  by (simp add: example_defs op_defs)

text \<open>
  Claim C10. In every poll record that \<open>lws_event_cb\<close> forwards to \<open>lws_service_fd\<close>
  the field \<open>events\<close> equals the field \<open>revents\<close>, and both hold the bits translated
  from the native mask: the read poll bit when the read bit is set, the write poll bit
  when the write bit is set.
\<close>

theorem lws_event_cb_events_eq_revents:
  assumes "Call_lws_service_fd c p \<in> set (emitted w (lws_event_cb K sock_fd revents x w))"
  shows "pfd_events p = pfd_revents p \<and>
         pfd_revents p =
           (if scast revents AND EV_READ K \<noteq> 0 then ucast (LWS_POLLIN K) else 0) OR
           (if scast revents AND EV_WRITE K \<noteq> 0 then ucast (LWS_POLLOUT K) else 0)"
proof (cases "scast revents AND EV_TIMEOUT K = 0")
  case False
  then have "lws_event_cb K sock_fd revents x w = w" by (simp add: lws_event_cb_timeout)
  with assms show ?thesis by (simp add: emitted_same)
next
  case True
  show ?thesis
  proof (cases "LIBEVENT_VERSION_NUMBER K < 0x02000000 \<and> scast revents AND EV_CLOSED K \<noteq> 0")
    case closed: True
    with True assms show ?thesis by (simp add: lws_event_cb_closed)
  next
    case False
    with True assms show ?thesis
      by (simp add: lws_event_cb_forward emitted_def logged_def)
  qed
qed


text \<open>Mask 6 (read and write) is forwarded with both fields equal to 5.\<close>

theorem lws_event_cb_events_eq_revents_witness:
  "Call_lws_service_fd (Some ()) \<lparr>pfd_fd = 7, pfd_events = 5, pfd_revents = 5\<rparr>
     \<in> set (emitted w_accepted (lws_event_cb K_libevent2 7 6 (W_write 1) w_accepted)) \<and>
   pfd_events \<lparr>pfd_fd = 7, pfd_events = 5, pfd_revents = 5\<rparr> =
     pfd_revents \<lparr>pfd_fd = 7, pfd_events = 5, pfd_revents = (5::short)\<rparr>"
proof -
  have m: "Call_lws_service_fd (Some ()) \<lparr>pfd_fd = 7, pfd_events = 5, pfd_revents = 5\<rparr>
     \<in> set (emitted w_accepted (lws_event_cb K_libevent2 7 6 (W_write 1) w_accepted))"
    by (simp add: example_defs op_defs)
  show ?thesis
    using lws_event_cb_events_eq_revents [OF m] m by simp
qed

subsection \<open>Setting the loop up\<close>








lemma fst_initloop:
  "fst (lws_event_initloop K base_ok pipes_rc loop n w) = (if pipes_rc = 0 then 0 else 1)"
  by (simp add: lws_event_initloop_def Let_def lws_create_event_pipes_def
      split: option.split prod.split)

text \<open>
  Claim C6, as amended. \<open>lws_event_initloop\<close> returns the failure result 1 exactly when
  \<open>lws_create_event_pipes\<close> fails, and the success result 0 otherwise. The outcome of
  \<open>event_base_new\<close> is not tested and has no part in the result.
\<close>

theorem initloop_result:
  "(fst (lws_event_initloop K base_ok pipes_rc loop n w) = 1 \<longleftrightarrow> pipes_rc \<noteq> 0) \<and>
   (fst (lws_event_initloop K base_ok pipes_rc loop n w) = 0 \<longleftrightarrow> pipes_rc = 0)"
  by (simp add: fst_initloop)

text \<open>
  The claim as first stated fails when \<open>event_base_new\<close> fails and the pipes are made:
  the result is success, with no instance stored for the thread.
\<close>

theorem initloop_base_failure_counterexample:
  "fst (lws_event_initloop K_libevent2 False 0 None 0 w_start) = 0 \<and>
   io_loop (pt (ctx (snd (lws_event_initloop K_libevent2 False 0 None 0 w_start))) 0) = None"
  by (simp add: example_defs op_defs)


theorem initloop_result_witness:
  "fst (lws_event_initloop K_libevent2 True 1 None 0 w_start) = 1 \<and>
   fst (lws_event_initloop K_libevent2 True 0 None 0 w_start) = 0"
  using initloop_result [of K_libevent2 True 1 None 0 w_start]
    initloop_result [of K_libevent2 True 0 None 0 w_start]
  by simp






text \<open>
  Claim C5, evaluated where it fails. With no loop supplied, \<open>lws_event_initloop\<close> stores
  the new instance 0 for the thread, but creates the listening watch (and the interrupt
  watch) on the \<open>NULL\<close> it was called with, not on that instance.
\<close>

theorem initloop_owned_loop_watch_base:
  "io_loop (pt (ctx (snd (lws_event_initloop K_libevent2 True 0 None 0 w_start))) 0) = Some 0 \<and>
   emitted w_start (snd (lws_event_initloop K_libevent2 True 0 None 0 w_start)) =
     [Call_event_base_new (Some 0),
      Call_lws_create_event_pipes 0,
      Call_event_new None 3 18 (Some Cb_lws_event_cb) (Arg_watcher (W_read 0)) (Some 0),
      Call_event_add (Some 0),
      Call_evsignal_new None 2 (Some Cb_lws_event_sigint_cb) (Arg_pt 0) (Some 1),
      Call_event_add (Some 1)] \<and>
   map_option ev_base
     (registrations (reactor (snd (lws_event_initloop K_libevent2 True 0 None 0 w_start))) 0) =
     Some None"
  by (simp add: example_defs op_defs)

subsection \<open>Releasing a connection's watches\<close>

text \<open>
  \<open>lws_libevent_destroy\<close> releases each watch that is present, does nothing to a
  connection without watches, and leaves the connection's tokens as they were.
\<close>

lemma lws_libevent_destroy_log:
  "emitted w (lws_libevent_destroy (Some a) w) =
     (if watcher (w_read (wsis w a)) \<noteq> None
      then [Call_event_free (watcher (w_read (wsis w a)))] else []) @
     (if watcher (w_write (wsis w a)) \<noteq> None
      then [Call_event_free (watcher (w_write (wsis w a)))] else [])"
  by (simp add: lws_libevent_destroy_def Let_def emitted_def calls_event_free)

lemma lws_libevent_destroy_absent:
  "lws_libevent_destroy None w = w"
  "watcher (w_read (wsis w a)) = None \<Longrightarrow> watcher (w_write (wsis w a)) = None \<Longrightarrow>
     lws_libevent_destroy (Some a) w = w"
  by (simp_all add: lws_libevent_destroy_def)

lemma lws_libevent_destroy_keeps_tokens:
  "wsis (lws_libevent_destroy p w) = wsis w"
  by (simp add: lws_libevent_destroy_def Let_def split: option.split)

text \<open>
  Claim C3, evaluated where it fails. On the accepted connection 1, with the tokens 2 and
  3, the first call releases both watches; a second call releases the same two tokens
  again.
\<close>

theorem lws_libevent_destroy_twice:
  "emitted w_accepted (lws_libevent_destroy (Some 1) w_accepted) =
     [Call_event_free (Some 2), Call_event_free (Some 3)] \<and>
   emitted (lws_libevent_destroy (Some 1) w_accepted)
     (lws_libevent_destroy (Some 1) (lws_libevent_destroy (Some 1) w_accepted)) =
     [Call_event_free (Some 2), Call_event_free (Some 3)]"
  by (simp add: example_defs op_defs)

text \<open>
  Claim C4, evaluated where it fails. The tokens of the accepted connection 1 are sound.
  After \<open>lws_libevent_destroy\<close> its read watch still holds token 2, which is live no
  longer. The same happens to the interrupt watch in \<open>lws_libevent_destroyloop\<close>, and to
  the connection's read watch when the callback of an old library version handles the
  closed bit.
\<close>

theorem release_paths_leave_tokens:
  "wsi_tokens_sound w_accepted 1 \<and>
   watcher (w_read (wsis (lws_libevent_destroy (Some 1) w_accepted) 1)) = Some 2 \<and>
   registrations (reactor (lws_libevent_destroy (Some 1) w_accepted)) 2 = None \<and>
   \<not> wsi_tokens_sound (lws_libevent_destroy (Some 1) w_accepted) 1 \<and>
   token_sound (reactor w_accepted) (watcher (w_sigint (pt (ctx w_accepted) 0))) \<and>
   \<not> token_sound (reactor (lws_libevent_destroyloop K_libevent2 0 w_accepted))
        (watcher (w_sigint (pt (ctx (lws_libevent_destroyloop K_libevent2 0 w_accepted)) 0))) \<and>
   \<not> wsi_tokens_sound (lws_event_cb K_libevent1 7 0x80 (W_read 1) w_accepted) 1"
  by (simp add: example_defs op_defs wsi_tokens_sound_def token_sound_def)

subsection \<open>Starting and stopping watches\<close>

lemma and_or_zero:
  "((x::cint) AND (a OR b)) = 0 \<longleftrightarrow> (x AND a) = 0 \<and> (x AND b) = 0"
  by (simp add: bit.conj_disj_distrib or_eq_0_iff)

text \<open>
  Claim C7, as amended. \<open>lws_libevent_io\<close> returns with the state unchanged, whatever
  its flags, when the adapter is disabled, the thread's instance is absent or the context
  is being destroyed. In every other call the assertion fails exactly when the flags hold
  neither direction bit or neither of the start and stop bits.
\<close>

theorem lws_libevent_io_guards_then_assert:
  "(\<not> LWS_LIBEVENT_ENABLED K (ctx w) \<or> io_loop (pt (ctx w) (tsi (wsis w a))) = None \<or>
      being_destroyed (ctx w) \<longrightarrow> lws_libevent_io K a flags w = Inr w) \<and>
   (LWS_LIBEVENT_ENABLED K (ctx w) \<and> io_loop (pt (ctx w) (tsi (wsis w a))) \<noteq> None \<and>
      \<not> being_destroyed (ctx w) \<longrightarrow>
        (lws_libevent_io K a flags w = Inl Assertion_failed \<longleftrightarrow>
           (flags AND LWS_EV_READ K = 0 \<and> flags AND LWS_EV_WRITE K = 0) \<or>
           (flags AND LWS_EV_START K = 0 \<and> flags AND LWS_EV_STOP K = 0)))"
proof (intro conjI impI)
  assume "\<not> LWS_LIBEVENT_ENABLED K (ctx w) \<or> io_loop (pt (ctx w) (tsi (wsis w a))) = None \<or>
      being_destroyed (ctx w)"
  then show "lws_libevent_io K a flags w = Inr w"
    by (auto simp add: lws_libevent_io_def Let_def)
next
  assume g: "LWS_LIBEVENT_ENABLED K (ctx w) \<and> io_loop (pt (ctx w) (tsi (wsis w a))) \<noteq> None \<and>
      \<not> being_destroyed (ctx w)"
  then obtain l where l: "io_loop (pt (ctx w) (tsi (wsis w a))) = Some l" by auto
  show "lws_libevent_io K a flags w = Inl Assertion_failed \<longleftrightarrow>
           (flags AND LWS_EV_READ K = 0 \<and> flags AND LWS_EV_WRITE K = 0) \<or>
           (flags AND LWS_EV_START K = 0 \<and> flags AND LWS_EV_STOP K = 0)"
    using g by (auto simp add: lws_libevent_io_def Let_def l and_or_zero)
qed

text \<open>
  The claim as first stated fails on a disabled adapter: a call with no flag at all
  returns normally.
\<close>

theorem lws_libevent_io_disabled_counterexample:
  "(0::cint) AND LWS_EV_READ K_libevent2 = 0 \<and> (0::cint) AND LWS_EV_WRITE K_libevent2 = 0 \<and>
   lws_libevent_io K_libevent2 1 0 w_disabled = Inr w_disabled"
  by (simp add: lws_libevent_io_def LWS_LIBEVENT_ENABLED_def w_disabled_def K_libevent2_def Let_def)

theorem lws_libevent_io_guards_then_assert_witness:
  "\<not> LWS_LIBEVENT_ENABLED K_libevent2 (ctx w_disabled) \<and>
   lws_libevent_io K_libevent2 1 5 w_disabled = Inr w_disabled \<and>
   LWS_LIBEVENT_ENABLED K_libevent2 (ctx w_accepted) \<and>
   io_loop (pt (ctx w_accepted) (tsi (wsis w_accepted 1))) \<noteq> None \<and>
   \<not> being_destroyed (ctx w_accepted) \<and>
   lws_libevent_io K_libevent2 1 4 w_accepted = Inl Assertion_failed \<and>
   lws_libevent_io K_libevent2 1 3 w_accepted = Inl Assertion_failed \<and>
   lws_libevent_io K_libevent2 1 5 w_accepted \<noteq> Inl Assertion_failed"
proof -
  have a: "\<not> LWS_LIBEVENT_ENABLED K_libevent2 (ctx w_disabled)"
    by (simp add: example_defs op_defs)
  have b: "LWS_LIBEVENT_ENABLED K_libevent2 (ctx w_accepted)"
          "io_loop (pt (ctx w_accepted) (tsi (wsis w_accepted 1))) \<noteq> None"
          "\<not> being_destroyed (ctx w_accepted)"
    by (simp_all add: example_defs op_defs)
  have k: "LWS_EV_READ K_libevent2 = 1" "LWS_EV_WRITE K_libevent2 = 2"
          "LWS_EV_START K_libevent2 = 4" "LWS_EV_STOP K_libevent2 = 8"
    by (simp_all add: K_libevent2_def)
  show ?thesis
    using lws_libevent_io_guards_then_assert [of K_libevent2 w_disabled 1 5]
      lws_libevent_io_guards_then_assert [of K_libevent2 w_accepted 1 4]
      lws_libevent_io_guards_then_assert [of K_libevent2 w_accepted 1 3]
      lws_libevent_io_guards_then_assert [of K_libevent2 w_accepted 1 5] a b
    by (simp add: k)
qed

end
